theory Spec2Isabelle
  imports Main
begin

section \<open>Values shared by the controllers\<close>

text \<open>
  The controllers of the photography portfolio API (\<^verbatim>\<open>ImageCtrl.js\<close>, \<^verbatim>\<open>UserCtrl.js\<close>)
  talk to three collaborators: the Express response object \<^verbatim>\<open>res\<close>, the Sequelize
  models \<^verbatim>\<open>Image\<close> and \<^verbatim>\<open>User\<close>, and the file system (\<^verbatim>\<open>fs.promises\<close>). Each of them
  is a component of one explicit state, and an \<^verbatim>\<open>async\<close> handler is a function from
  the state before the request to its outcome.
\<close>

subsection \<open>JSON bodies\<close>

datatype json =
    JNull
  | JNum nat
  | JStr string
  | JObj "(string \<times> json) list"
  | JArr "json list"

text \<open>
  \<^verbatim>\<open>{ message: M }\<close> with \<^verbatim>\<open>M\<close> read from \<^verbatim>\<open>process.env\<close>: a variable that is not set is
  \<^verbatim>\<open>undefined\<close>, and \<^verbatim>\<open>JSON.stringify\<close> leaves such a property out.
\<close>

definition message :: "string option \<Rightarrow> json" where
  "message m = (case m of None \<Rightarrow> JObj [] | Some t \<Rightarrow> JObj [(''message'', JStr t)])"

text \<open>The property names of a JSON object (none for any other value).\<close>

fun fields_of :: "json \<Rightarrow> string list" where
  "fields_of (JObj kvs) = map fst kvs"
| "fields_of _ = []"

text \<open>JavaScript's \<^verbatim>\<open>a || b\<close> on two optional strings: \<^verbatim>\<open>undefined\<close> and \<^verbatim>\<open>""\<close> are falsy.\<close>

definition js_or :: "string option \<Rightarrow> string option \<Rightarrow> string option" where
  "js_or a b = (case a of None \<Rightarrow> b | Some t \<Rightarrow> if t = [] then b else a)"

text \<open>
  A value placed in a template literal or concatenated to a string: \<^verbatim>\<open>undefined\<close> is
  rendered as the nine characters \<^verbatim>\<open>undefined\<close>.
\<close>

definition str :: "string option \<Rightarrow> string" where
  "str v = (case v of None \<Rightarrow> ''undefined'' | Some t \<Rightarrow> t)"

subsection \<open>Rows, as the two models declare them\<close>

text \<open>
  \<^verbatim>\<open>ImageModel\<close>: \<^verbatim>\<open>id\<close> (primary key, auto-increment), \<^verbatim>\<open>url\<close> (unique),
  \<^verbatim>\<open>description\<close>, \<^verbatim>\<open>gallery\<close>; none may be null. The model has no other attribute.
\<close>

record image_row =
  i_id :: nat
  i_url :: string
  i_description :: string
  i_gallery :: string

text \<open>
  \<^verbatim>\<open>UserModel\<close>: \<^verbatim>\<open>id\<close> (primary key, auto-increment), \<^verbatim>\<open>name\<close>, \<^verbatim>\<open>email\<close>, \<^verbatim>\<open>image\<close>
  (each unique), \<^verbatim>\<open>password\<close>; none may be null.
\<close>

record user_row =
  u_id :: nat
  u_name :: string
  u_email :: string
  u_image :: string
  u_password :: string

subsection \<open>The state a request runs in\<close>

text \<open>
  \<open>Images\<close> and \<open>Users\<close> are the two tables with their auto-increment counters, \<open>disk\<close>
  is the set of paths at which a file exists, \<open>db_up\<close> says whether the database
  answers (when it does not, every Sequelize call rejects), and \<open>sent\<close> is the response
  the client has received for the current request, if any.
\<close>

record world =
  Images :: "image_row list"
  Images_seq :: nat
  Users :: "user_row list"
  Users_seq :: nat
  disk :: "string set"
  db_up :: bool
  sent :: "(nat \<times> json) option"

datatype exn =
    ERR_HTTP_HEADERS_SENT
  | ENOENT
  | ReferenceError
  | TypeError
  | SequelizeConnectionError
  | SequelizeUniqueConstraintError

text \<open>
  An awaited step either completes in a new state or throws in the state reached so
  far: what was written before a \<^verbatim>\<open>throw\<close> stays written.
\<close>

datatype outcome = Done world | Threw exn world

fun final :: "outcome \<Rightarrow> world" where
  "final (Done s) = s"
| "final (Threw e s) = s"

text \<open>Sequencing of two statements, and \<^verbatim>\<open>try { ... } catch (error) { ... }\<close>.\<close>

fun andThen :: "outcome \<Rightarrow> (world \<Rightarrow> outcome) \<Rightarrow> outcome" where
  "andThen (Done s) f = f s"
| "andThen (Threw e s) f = Threw e s"

fun catch :: "outcome \<Rightarrow> (world \<Rightarrow> outcome) \<Rightarrow> outcome" where
  "catch (Done s) h = Done s"
| "catch (Threw e s) h = h s"

text \<open>\<^verbatim>\<open>for (const x of xs) f(x)\<close> and \<^verbatim>\<open>xs.forEach(x => f(x))\<close>.\<close>

fun forEach :: "('a \<Rightarrow> world \<Rightarrow> outcome) \<Rightarrow> 'a list \<Rightarrow> world \<Rightarrow> outcome" where
  "forEach f [] s = Done s"
| "forEach f (x # xs) s = andThen (f x s) (forEach f xs)"

text \<open>
  The state in which the next request starts: Express hands every request a response
  object of its own, on which nothing has been sent.
\<close>

definition next_request :: "world \<Rightarrow> world" where
  "next_request s = s\<lparr>sent := None\<rparr>"

subsection \<open>Express: \<^verbatim>\<open>res.status(code).json(body)\<close>\<close>

text \<open>
  The first call sends the response. A later call on the same response fails inside
  \<^verbatim>\<open>res.send\<close>, which sets a header: Node throws \<^verbatim>\<open>ERR_HTTP_HEADERS_SENT\<close>, and the client
  keeps what it was sent first.
\<close>

definition json_res :: "nat \<Rightarrow> json \<Rightarrow> world \<Rightarrow> outcome" where
  "json_res code b s =
     (case sent s of
        None \<Rightarrow> Done (s\<lparr>sent := Some (code, b)\<rparr>)
      | Some r \<Rightarrow> Threw ERR_HTTP_HEADERS_SENT s)"

text \<open>The status code the client received, if a response was sent.\<close>

definition status_of :: "world \<Rightarrow> nat option" where
  "status_of s = map_option fst (sent s)"

subsection \<open>The file system: \<^verbatim>\<open>fs.promises.unlink\<close>\<close>

text \<open>\<^verbatim>\<open>unlink\<close> removes the file at the path and rejects with \<^verbatim>\<open>ENOENT\<close> when there is none.\<close>

definition unlink :: "string \<Rightarrow> world \<Rightarrow> outcome" where
  "unlink p s =
     (if p \<in> disk s then Done (s\<lparr>disk := disk s - {p}\<rparr>) else Threw ENOENT s)"

subsection \<open>Sequelize: the \<^verbatim>\<open>Image\<close> model\<close>

text \<open>
  The table carries the constraints the model declares: the primary key and the
  unique \<^verbatim>\<open>url\<close>. A statement that would break one is rejected and changes nothing.
\<close>

definition Image_findAll :: "world \<Rightarrow> exn + image_row list" where
  "Image_findAll s =
     (if db_up s then Inr (Images s) else Inl SequelizeConnectionError)"

text \<open>\<^verbatim>\<open>Image.findAll({ where: { gallery: gallery }})\<close>\<close>

definition Image_findAll_where_gallery :: "string \<Rightarrow> world \<Rightarrow> exn + image_row list" where
  "Image_findAll_where_gallery g s =
     (if db_up s then Inr (filter (\<lambda>r. i_gallery r = g) (Images s))
      else Inl SequelizeConnectionError)"

definition Image_findByPk :: "nat \<Rightarrow> world \<Rightarrow> exn + image_row option" where
  "Image_findByPk ID s =
     (if db_up s then Inr (find (\<lambda>r. i_id r = ID) (Images s))
      else Inl SequelizeConnectionError)"

text \<open>
  \<^verbatim>\<open>Image.create({ ...fields, name: IMG })\<close>: \<^verbatim>\<open>name\<close> is no attribute of the model, so
  only \<^verbatim>\<open>url\<close>, \<^verbatim>\<open>description\<close> and \<^verbatim>\<open>gallery\<close> reach the row.
\<close>

definition Image_create :: "string \<Rightarrow> string \<Rightarrow> string \<Rightarrow> world \<Rightarrow> outcome" where
  "Image_create u d g s =
     (if \<not> db_up s then Threw SequelizeConnectionError s
      else if u \<in> set (map i_url (Images s)) then Threw SequelizeUniqueConstraintError s
      else Done (s\<lparr>Images := Images s @
                      [\<lparr>i_id = Images_seq s, i_url = u, i_description = d, i_gallery = g\<rparr>],
                    Images_seq := Suc (Images_seq s)\<rparr>))"

text \<open>\<^verbatim>\<open>Image.update({ ...fields }, { where: { id: ID }})\<close>\<close>

definition Image_update :: "nat \<Rightarrow> string \<Rightarrow> string \<Rightarrow> string \<Rightarrow> world \<Rightarrow> outcome" where
  "Image_update ID u d g s =
     (if \<not> db_up s then Threw SequelizeConnectionError s
      else if ID \<in> set (map i_id (Images s)) \<and>
              u \<in> set (map i_url (filter (\<lambda>r. i_id r \<noteq> ID) (Images s)))
      then Threw SequelizeUniqueConstraintError s
      else Done (s\<lparr>Images :=
                      map (\<lambda>r. if i_id r = ID
                                then r\<lparr>i_url := u, i_description := d, i_gallery := g\<rparr>
                                else r) (Images s)\<rparr>))"

text \<open>\<^verbatim>\<open>Image.destroy({ where: { id: ID } })\<close>\<close>

definition Image_destroy :: "nat \<Rightarrow> world \<Rightarrow> outcome" where
  "Image_destroy ID s =
     (if \<not> db_up s then Threw SequelizeConnectionError s
      else Done (s\<lparr>Images := filter (\<lambda>r. i_id r \<noteq> ID) (Images s)\<rparr>))"

subsection \<open>Sequelize: the \<^verbatim>\<open>User\<close> model\<close>

definition User_findAll :: "world \<Rightarrow> exn + user_row list" where
  "User_findAll s =
     (if db_up s then Inr (Users s) else Inl SequelizeConnectionError)"

definition User_findByPk :: "nat \<Rightarrow> world \<Rightarrow> exn + user_row option" where
  "User_findByPk ID s =
     (if db_up s then Inr (find (\<lambda>r. u_id r = ID) (Users s))
      else Inl SequelizeConnectionError)"

text \<open>
  \<^verbatim>\<open>User.create({ ...fields, image: IMG, password: hash })\<close>; \<^verbatim>\<open>name\<close>, \<^verbatim>\<open>email\<close> and
  \<^verbatim>\<open>image\<close> are unique columns.
\<close>

definition User_create :: "string \<Rightarrow> string \<Rightarrow> string \<Rightarrow> string \<Rightarrow> world \<Rightarrow> outcome" where
  "User_create n e i p s =
     (if \<not> db_up s then Threw SequelizeConnectionError s
      else if n \<in> set (map u_name (Users s)) \<or> e \<in> set (map u_email (Users s)) \<or>
              i \<in> set (map u_image (Users s))
      then Threw SequelizeUniqueConstraintError s
      else Done (s\<lparr>Users := Users s @
                      [\<lparr>u_id = Users_seq s, u_name = n, u_email = e, u_image = i,
                        u_password = p\<rparr>],
                    Users_seq := Suc (Users_seq s)\<rparr>))"

text \<open>
  \<^verbatim>\<open>User.update(user, { where: { id: ID }})\<close>. Sequelize drops the properties of
  \<^verbatim>\<open>user\<close> whose value is \<^verbatim>\<open>undefined\<close>, so \<^verbatim>\<open>image\<close> and \<^verbatim>\<open>password\<close> are optional
  here: \<open>None\<close> leaves the column as it is.
\<close>

definition User_update ::
  "nat \<Rightarrow> string \<Rightarrow> string \<Rightarrow> string option \<Rightarrow> string option \<Rightarrow> world \<Rightarrow> outcome" where
  "User_update ID n e i p s =
     (let others = filter (\<lambda>r. u_id r \<noteq> ID) (Users s) in
      if \<not> db_up s then Threw SequelizeConnectionError s
      else if ID \<in> set (map u_id (Users s)) \<and>
              (n \<in> set (map u_name others) \<or> e \<in> set (map u_email others) \<or>
               (case i of None \<Rightarrow> False | Some f \<Rightarrow> f \<in> set (map u_image others)))
      then Threw SequelizeUniqueConstraintError s
      else Done (s\<lparr>Users :=
                      map (\<lambda>r. if u_id r = ID
                                then r\<lparr>u_name := n, u_email := e,
                                       u_image := (case i of None \<Rightarrow> u_image r | Some f \<Rightarrow> f),
                                       u_password := (case p of None \<Rightarrow> u_password r | Some h \<Rightarrow> h)\<rparr>
                                else r) (Users s)\<rparr>))"

definition User_destroy :: "nat \<Rightarrow> world \<Rightarrow> outcome" where
  "User_destroy ID s =
     (if \<not> db_up s then Threw SequelizeConnectionError s
      else Done (s\<lparr>Users := filter (\<lambda>r. u_id r \<noteq> ID) (Users s)\<rparr>))"

section \<open>Configuration and the helpers of \<^verbatim>\<open>app/middlewares\<close>\<close>

text \<open>
  \<open>env\<close> is \<^verbatim>\<open>process.env\<close>. \<open>STRING_MIN\<close>, \<open>STRING_MAX\<close> and \<open>TEXT_MAX\<close> are the numbers the
  variables of these names stand for. \<^verbatim>\<open>checkEmail\<close>, \<^verbatim>\<open>checkPassword\<close> and \<^verbatim>\<open>getName\<close>
  are exported by \<^verbatim>\<open>app/middlewares\<close>, which is not among the sources, and
  \<^verbatim>\<open>bcrypt.hash\<close> belongs to a library; the four are parameters, so that whatever is
  proved holds for every implementation of them. \<open>bcrypt_hash p c\<close> is the hash the
  library returns for the plaintext \<open>p\<close> and the cost \<open>c\<close> under the salt it draws.
\<close>

record config =
  env :: "string \<Rightarrow> string option"
  STRING_MIN :: nat
  STRING_MAX :: nat
  TEXT_MAX :: nat
  checkEmail :: "string \<Rightarrow> bool"
  checkPassword :: "string option \<Rightarrow> bool"
  getName :: "string \<Rightarrow> string"
  bcrypt_hash :: "string \<Rightarrow> nat \<Rightarrow> string"

text \<open>
  Modelled from the spec: \<^verbatim>\<open>checkRange\<close> of \<^verbatim>\<open>app/middlewares\<close> (not among the sources).
  The spec: it fails (returns false) when the length is outside \<open>[min, max]\<close> inclusive,
  or the value is absent.
\<close>

definition checkRange :: "string option \<Rightarrow> nat \<Rightarrow> nat \<Rightarrow> bool" where
  "checkRange v lo hi =
     (case v of None \<Rightarrow> False | Some t \<Rightarrow> lo \<le> length t \<and> length t \<le> hi)"

text \<open>
  Modelled from the spec: \<^verbatim>\<open>setImage\<close> of \<^verbatim>\<open>app/middlewares\<close> (not among the sources),
  the spec's \<^verbatim>\<open>materialize\<close>. The spec: it copies the temporary file into the storage
  directory under the given name; the temporary path must exist; it creates exactly
  one new file and leaves the temporary file for the caller to remove. Both names are
  relative to \<^verbatim>\<open>IMG_URL\<close>, the directory the uploads of \<^verbatim>\<open>ImageCtrl\<close> arrive in.
\<close>

definition setImage :: "config \<Rightarrow> string \<Rightarrow> string \<Rightarrow> world \<Rightarrow> outcome" where
  "setImage cfg input output s =
     (let dir = str (env cfg ''IMG_URL'') in
      if dir @ input \<in> disk s
      then Done (s\<lparr>disk := insert (dir @ output) (disk s)\<rparr>)
      else Threw ENOENT s)"

text \<open>
  \<^verbatim>\<open>bcrypt.hash(password, 10)\<close>: the promise rejects when \<^verbatim>\<open>password\<close> is \<^verbatim>\<open>undefined\<close>.
\<close>

definition bcrypt_hash_js :: "config \<Rightarrow> string option \<Rightarrow> nat \<Rightarrow> exn + string" where
  "bcrypt_hash_js cfg pw cost =
     (case pw of None \<Rightarrow> Inl TypeError | Some p \<Rightarrow> Inr (bcrypt_hash cfg p cost))"

text \<open>Truthiness of an optional string: \<^verbatim>\<open>undefined\<close> and \<^verbatim>\<open>""\<close> are falsy.\<close>

definition truthy :: "string option \<Rightarrow> bool" where
  "truthy v = (case v of None \<Rightarrow> False | Some t \<Rightarrow> t \<noteq> [])"

section \<open>\<^verbatim>\<open>ImageCtrl.js\<close>\<close>

text \<open>
  A handler is modelled from the point where \<^verbatim>\<open>form.parse\<close> has called back without an
  error. \<open>flds\<close> is the parsed form (\<^verbatim>\<open>fields\<close>), carrying the three text fields of the request,
  and \<open>upload\<close> is \<^verbatim>\<open>files.image.newFilename\<close>, the name formidable gave the uploaded file
  in the upload directory (\<open>None\<close> when the request has no file). \<open>ID\<close> is the path
  parameter after \<^verbatim>\<open>parseInt\<close>, and \<open>now\<close> is \<^verbatim>\<open>Date.now()\<close> as the template literal
  prints it.
\<close>

record image_fields =
  url :: string
  description :: string
  gallery :: string

text \<open>
  The two checks send \<^verbatim>\<open>403\<close> and return the response to their caller. No caller
  looks at what they return.
\<close>

definition checkImageData :: "config \<Rightarrow> string \<Rightarrow> world \<Rightarrow> outcome" where
  "checkImageData cfg d s =
     (if \<not> checkRange (Some d) (STRING_MIN cfg) (TEXT_MAX cfg)
      then json_res 403 (message (env cfg ''CHECK_NAME'')) s
      else Done s)"

definition checkImageUnique :: "config \<Rightarrow> string \<Rightarrow> image_row \<Rightarrow> world \<Rightarrow> outcome" where
  "checkImageUnique cfg u row s =
     (if i_url row = u
      then json_res 403 (message (env cfg ''DISPO_URL'')) s
      else Done s)"

definition setImages :: "config \<Rightarrow> string \<Rightarrow> string \<Rightarrow> world \<Rightarrow> outcome" where
  "setImages cfg input output s = setImage cfg input output s"

definition image_json :: "image_row \<Rightarrow> json" where
  "image_json r =
     JObj [(''id'', JNum (i_id r)), (''url'', JStr (i_url r)),
           (''description'', JStr (i_description r)), (''gallery'', JStr (i_gallery r))]"

definition listImages :: "config \<Rightarrow> world \<Rightarrow> outcome" where
  "listImages cfg s =
     catch
       (case Image_findAll s of
          Inl e \<Rightarrow> Threw e s
        | Inr images \<Rightarrow> json_res 200 (JArr (map image_json images)) s)
       (json_res 404 (message (env cfg ''IMAGES_NOT_FOUND'')))"

text \<open>
  \<^verbatim>\<open>createImage\<close>, the body of its \<^verbatim>\<open>try\<close>. \<^verbatim>\<open>findAll\<close> resolves to an array, which is
  truthy even when empty, so the \<^verbatim>\<open>404\<close> branch under \<^verbatim>\<open>if (!images)\<close> is never taken.
\<close>

definition createImage_try ::
  "config \<Rightarrow> string \<Rightarrow> image_fields \<Rightarrow> string option \<Rightarrow> world \<Rightarrow> outcome" where
  "createImage_try cfg now flds upload s =
     andThen (checkImageData cfg (description flds) s) (\<lambda>s.
     case Image_findAll_where_gallery (gallery flds) s of
       Inl e \<Rightarrow> Threw e s
     | Inr images \<Rightarrow>
     andThen (forEach (checkImageUnique cfg (url flds)) images s) (\<lambda>s.
     let IMG = now @ ''.'' @ str (env cfg ''IMG_EXT'') in
     andThen
       (if truthy upload
        then andThen (setImages cfg (str upload) IMG s)
               (unlink (str (env cfg ''IMG_URL'') @ str upload))
        else Done s) (\<lambda>s.
     andThen (Image_create (url flds) (description flds) (gallery flds) s)
       (json_res 201 (message (env cfg ''IMAGE_CREATED''))))))"

definition createImage ::
  "config \<Rightarrow> string \<Rightarrow> image_fields \<Rightarrow> string option \<Rightarrow> world \<Rightarrow> outcome" where
  "createImage cfg now flds upload s =
     catch (createImage_try cfg now flds upload s)
       (json_res 400 (message (env cfg ''IMAGE_NOT_CREATED'')))"

text \<open>
  \<^verbatim>\<open>updateImage\<close> reads \<^verbatim>\<open>images.find(image => image.id === ID)?.image\<close>. A row of the
  \<^verbatim>\<open>Images\<close> model has the attributes \<^verbatim>\<open>id\<close>, \<^verbatim>\<open>url\<close>, \<^verbatim>\<open>description\<close> and \<^verbatim>\<open>gallery\<close>;
  \<^verbatim>\<open>image\<close> is not one of them, so the property is \<^verbatim>\<open>undefined\<close> on every row.
\<close>

definition row_image :: "image_row \<Rightarrow> string option" where
  "row_image r = None"

text \<open>
  \<^verbatim>\<open>updateImage\<close> also reads \<^verbatim>\<open>IMG_EXT\<close>. \<^verbatim>\<open>ImageCtrl.js\<close> binds this name once, by
  \<^verbatim>\<open>const { IMAGE_CREATED, IMAGE_NOT_CREATED, IMG_EXT } = process.env\<close> inside
  \<^verbatim>\<open>createImage\<close>; at module level it binds \<^verbatim>\<open>IMAGES_NOT_FOUND\<close> and \<^verbatim>\<open>IMG_URL\<close> only, and
  \<^verbatim>\<open>updateImage\<close> binds \<^verbatim>\<open>IMAGE_NOT_UPDATED\<close> and \<^verbatim>\<open>IMAGE_UPDATED\<close>. Inside \<^verbatim>\<open>updateImage\<close> the
  identifier is unbound, and reading it throws a \<^verbatim>\<open>ReferenceError\<close>.
\<close>

definition updateImage_IMG_EXT :: "exn + string" where
  "updateImage_IMG_EXT = Inl ReferenceError"

text \<open>
  The body of the \<^verbatim>\<open>try\<close> of \<^verbatim>\<open>updateImage\<close>. In the branch for an uploaded file the old
  name is unlinked first; then the new name is built from \<^verbatim>\<open>Date.now()\<close> and \<^verbatim>\<open>IMG_EXT\<close>,
  the upload is stored by \<^verbatim>\<open>setImages\<close> under the \<^verbatim>\<open>url\<close> field of the form (not under the
  new name), and the upload is unlinked.
\<close>

definition updateImage_try ::
  "config \<Rightarrow> string \<Rightarrow> nat \<Rightarrow> image_fields \<Rightarrow> string option \<Rightarrow> world \<Rightarrow> outcome" where
  "updateImage_try cfg now ID flds upload s =
     andThen (checkImageData cfg (description flds) s) (\<lambda>s.
     case Image_findAll_where_gallery (gallery flds) s of
       Inl e \<Rightarrow> Threw e s
     | Inr images \<Rightarrow>
     if images = [] then json_res 404 (message (env cfg ''IMAGES_NOT_FOUND'')) s
     else
     andThen (forEach (checkImageUnique cfg (url flds))
                (filter (\<lambda>r. i_id r \<noteq> ID) images) s) (\<lambda>s.
     let img = (case find (\<lambda>r. i_id r = ID) images of
                  None \<Rightarrow> None
                | Some r \<Rightarrow> row_image r) in
     andThen
       (if truthy upload
        then andThen (unlink (str (env cfg ''IMG_URL'') @ str img) s) (\<lambda>s.
             case updateImage_IMG_EXT of
               Inl e \<Rightarrow> Threw e s
             | Inr ext \<Rightarrow>
             let img = Some (now @ ''.'' @ ext) in
             andThen (setImages cfg (str upload) (url flds) s)
               (unlink (str (env cfg ''IMG_URL'') @ str upload)))
        else Done s) (\<lambda>s.
     andThen (Image_update ID (url flds) (description flds) (gallery flds) s)
       (json_res 200 (message (env cfg ''IMAGE_UPDATED''))))))"

definition updateImage ::
  "config \<Rightarrow> string \<Rightarrow> nat \<Rightarrow> image_fields \<Rightarrow> string option \<Rightarrow> world \<Rightarrow> outcome" where
  "updateImage cfg now ID flds upload s =
     catch (updateImage_try cfg now ID flds upload s)
       (json_res 400 (message (env cfg ''IMAGE_NOT_UPDATED'')))"

definition deleteImage_try :: "config \<Rightarrow> nat \<Rightarrow> world \<Rightarrow> outcome" where
  "deleteImage_try cfg ID s =
     (case Image_findByPk ID s of
        Inl e \<Rightarrow> Threw e s
      | Inr None \<Rightarrow> json_res 404 (message (env cfg ''IMAGE_NOT_FOUND'')) s
      | Inr (Some row) \<Rightarrow>
          andThen (unlink (str (env cfg ''IMG_URL'') @ i_url row) s) (\<lambda>s.
          andThen (Image_destroy ID s)
            (json_res 204 (message (env cfg ''IMAGE_DELETED'')))))"

definition deleteImage :: "config \<Rightarrow> nat \<Rightarrow> world \<Rightarrow> outcome" where
  "deleteImage cfg ID s =
     catch (deleteImage_try cfg ID s)
       (json_res 400 (message (env cfg ''IMAGE_NOT_DELETED'')))"

section \<open>\<^verbatim>\<open>UserCtrl.js\<close>\<close>

text \<open>
  The form of a user request: \<^verbatim>\<open>name\<close> and \<^verbatim>\<open>email\<close>, and \<^verbatim>\<open>password\<close>, which an update
  may leave out (\<open>None\<close> is \<^verbatim>\<open>undefined\<close>).
\<close>

record user_fields =
  name :: string
  email :: string
  password :: "string option"

text \<open>\<^verbatim>\<open>USERS_IMG\<close>, the upload directory of this controller.\<close>

definition USERS_IMG :: "config \<Rightarrow> string" where
  "USERS_IMG cfg = str (env cfg ''IMG_URL'') @ ''users/''"

definition checkUserData :: "config \<Rightarrow> string \<Rightarrow> string \<Rightarrow> world \<Rightarrow> outcome" where
  "checkUserData cfg n e s =
     (let IS_NAME_CHECKED = checkRange (Some n) (STRING_MIN cfg) (STRING_MAX cfg);
          IS_EMAIL_CHECKED = checkEmail cfg e in
      if \<not> IS_NAME_CHECKED \<or> \<not> IS_EMAIL_CHECKED
      then json_res 403 (message (js_or (env cfg ''CHECK_NAME'') (env cfg ''CHECK_EMAIL''))) s
      else Done s)"

definition checkUserPassword :: "config \<Rightarrow> string option \<Rightarrow> world \<Rightarrow> outcome" where
  "checkUserPassword cfg pw s =
     (if \<not> checkPassword cfg pw
      then json_res 403 (message (env cfg ''CHECK_PASSWORD'')) s
      else Done s)"

definition checkUserUnique :: "config \<Rightarrow> string \<Rightarrow> string \<Rightarrow> user_row \<Rightarrow> world \<Rightarrow> outcome" where
  "checkUserUnique cfg n e user s =
     (if u_name user = n \<or> u_email user = e
      then json_res 403 (message (js_or (env cfg ''DISPO_NAME'') (env cfg ''DISPO_EMAIL''))) s
      else Done s)"

text \<open>
  \<^verbatim>\<open>setImage\<close> of this controller (not the helper of \<^verbatim>\<open>app/middlewares\<close>, which
  \<^verbatim>\<open>UserCtrl\<close> does not import): its body builds the two strings and ends.
\<close>

definition UserCtrl_setImage :: "string \<Rightarrow> string \<Rightarrow> world \<Rightarrow> outcome" where
  "UserCtrl_setImage input output s =
     (let INPUT = ''users/'' @ input;
          OUTPUT = ''users/'' @ output
      in Done s)"

text \<open>
  The body of the \<^verbatim>\<open>try\<close> of \<^verbatim>\<open>createUser\<close>; as in \<^verbatim>\<open>createImage\<close>, the \<^verbatim>\<open>404\<close> under
  \<^verbatim>\<open>if (!users)\<close> is never taken.
\<close>

definition createUser_try ::
  "config \<Rightarrow> string \<Rightarrow> user_fields \<Rightarrow> string option \<Rightarrow> world \<Rightarrow> outcome" where
  "createUser_try cfg now flds upload s =
     andThen (checkUserData cfg (name flds) (email flds) s) (\<lambda>s.
     andThen (checkUserPassword cfg (password flds) s) (\<lambda>s.
     case User_findAll s of
       Inl e \<Rightarrow> Threw e s
     | Inr users \<Rightarrow>
     andThen (forEach (checkUserUnique cfg (name flds) (email flds)) users s) (\<lambda>s.
     let IMG = getName cfg (name flds) @ ''-'' @ now @ ''.'' @ str (env cfg ''IMG_EXT'') in
     andThen
       (if truthy upload
        then andThen (UserCtrl_setImage (str upload) IMG s)
               (unlink (USERS_IMG cfg @ str upload))
        else Done s) (\<lambda>s.
     case bcrypt_hash_js cfg (password flds) 10 of
       Inl e \<Rightarrow> Threw e s
     | Inr hash \<Rightarrow>
     andThen (User_create (name flds) (email flds) IMG hash s)
       (json_res 201 (message (env cfg ''USER_CREATED'')))))))"

definition createUser ::
  "config \<Rightarrow> string \<Rightarrow> user_fields \<Rightarrow> string option \<Rightarrow> world \<Rightarrow> outcome" where
  "createUser cfg now flds upload s =
     catch (createUser_try cfg now flds upload s)
       (json_res 400 (message (env cfg ''USER_NOT_CREATED'')))"

text \<open>\<^verbatim>\<open>listUsers\<close> builds each entry from \<^verbatim>\<open>id\<close>, \<^verbatim>\<open>name\<close>, \<^verbatim>\<open>email\<close> and \<^verbatim>\<open>image\<close>.\<close>

definition listUsers_entry :: "user_row \<Rightarrow> json" where
  "listUsers_entry user =
     JObj [(''id'', JNum (u_id user)), (''name'', JStr (u_name user)),
           (''email'', JStr (u_email user)), (''image'', JStr (u_image user))]"

definition listUsers :: "config \<Rightarrow> world \<Rightarrow> outcome" where
  "listUsers cfg s =
     catch
       (case User_findAll s of
          Inl e \<Rightarrow> Threw e s
        | Inr users \<Rightarrow> json_res 200 (JArr (map listUsers_entry users)) s)
       (json_res 404 (message (env cfg ''USERS_NOT_FOUND'')))"

text \<open>
  \<^verbatim>\<open>res.json(user)\<close> on what \<^verbatim>\<open>findByPk\<close> resolved to: \<^verbatim>\<open>null\<close> when there is no such
  row, and otherwise the instance, which \<^verbatim>\<open>JSON.stringify\<close> serialises with every
  attribute of the model.
\<close>

definition user_json :: "user_row option \<Rightarrow> json" where
  "user_json user =
     (case user of
        None \<Rightarrow> JNull
      | Some r \<Rightarrow>
          JObj [(''id'', JNum (u_id r)), (''name'', JStr (u_name r)),
                (''email'', JStr (u_email r)), (''image'', JStr (u_image r)),
                (''password'', JStr (u_password r))])"

definition readUser :: "config \<Rightarrow> nat \<Rightarrow> world \<Rightarrow> outcome" where
  "readUser cfg ID s =
     catch
       (case User_findByPk ID s of
          Inl e \<Rightarrow> Threw e s
        | Inr user \<Rightarrow> json_res 200 (user_json user) s)
       (json_res 404 (message (env cfg ''USER_NOT_FOUND'')))"

text \<open>
  The body of the \<^verbatim>\<open>try\<close> of \<^verbatim>\<open>updateUser\<close>. \<open>img\<close> is the stored name of the row, or
  the generated name when a file was uploaded. With a truthy \<^verbatim>\<open>password\<close> the row
  gets \<^verbatim>\<open>{ ...fields, image: img, password: hash }\<close>, otherwise
  \<^verbatim>\<open>{ ...fields, image: img }\<close>, in which \<^verbatim>\<open>password\<close> is whatever the form carried.
\<close>

definition updateUser_try ::
  "config \<Rightarrow> string \<Rightarrow> nat \<Rightarrow> user_fields \<Rightarrow> string option \<Rightarrow> world \<Rightarrow> outcome" where
  "updateUser_try cfg now ID flds upload s =
     andThen (checkUserData cfg (name flds) (email flds) s) (\<lambda>s.
     case User_findAll s of
       Inl e \<Rightarrow> Threw e s
     | Inr users \<Rightarrow>
     if users = [] then json_res 404 (message (env cfg ''USER_NOT_FOUND'')) s
     else
     andThen (forEach (checkUserUnique cfg (name flds) (email flds))
                (filter (\<lambda>user. u_id user \<noteq> ID) users) s) (\<lambda>s.
     let img = (if truthy upload
                then Some (getName cfg (name flds) @ ''-'' @ now @ ''.'' @
                           str (env cfg ''IMG_EXT''))
                else map_option u_image (find (\<lambda>user. u_id user = ID) users)) in
     andThen
       (if truthy upload
        then andThen (UserCtrl_setImage (str upload) (str img) s)
               (unlink (USERS_IMG cfg @ str upload))
        else Done s) (\<lambda>s.
     if truthy (password flds)
     then
       andThen (checkUserPassword cfg (password flds) s) (\<lambda>s.
       case bcrypt_hash_js cfg (password flds) 10 of
         Inl e \<Rightarrow> Threw e s
       | Inr hash \<Rightarrow>
       andThen (User_update ID (name flds) (email flds) img (Some hash) s)
         (json_res 200 (message (env cfg ''USER_UPDATED''))))
     else
       andThen (User_update ID (name flds) (email flds) img (password flds) s)
         (json_res 200 (message (env cfg ''USER_UPDATED''))))))"

definition updateUser ::
  "config \<Rightarrow> string \<Rightarrow> nat \<Rightarrow> user_fields \<Rightarrow> string option \<Rightarrow> world \<Rightarrow> outcome" where
  "updateUser cfg now ID flds upload s =
     catch (updateUser_try cfg now ID flds upload s)
       (json_res 400 (message (env cfg ''USER_NOT_UPDATED'')))"

definition deleteUser_try :: "config \<Rightarrow> nat \<Rightarrow> world \<Rightarrow> outcome" where
  "deleteUser_try cfg ID s =
     (case User_findByPk ID s of
        Inl e \<Rightarrow> Threw e s
      | Inr None \<Rightarrow> json_res 404 (message (env cfg ''USER_NOT_FOUND'')) s
      | Inr (Some user) \<Rightarrow>
          andThen (User_destroy ID s)
            (json_res 204 (message (env cfg ''USER_DELETED''))))"

definition deleteUser :: "config \<Rightarrow> nat \<Rightarrow> world \<Rightarrow> outcome" where
  "deleteUser cfg ID s =
     catch (deleteUser_try cfg ID s)
       (json_res 404 (message (env cfg ''USER_NOT_FOUND'')))"

section \<open>The routers \<^verbatim>\<open>AuthRoute\<close> and \<^verbatim>\<open>ImageRoute\<close>\<close>

datatype verb = GET | POST | PUT | DELETE

text \<open>A segment of a route's path: a literal, or a parameter such as \<^verbatim>\<open>:id\<close>.\<close>

datatype segment = Lit string | Param string

datatype middleware = checkAuth

datatype handler =
    AuthCtrl_readAvatar
  | AuthCtrl_loginUser
  | AuthCtrl_forgotPassword
  | AuthCtrl_checkRecaptcha
  | ImageCtrl_listImages
  | ImageCtrl_createImage
  | ImageCtrl_updateImage
  | ImageCtrl_deleteImage

record route =
  r_method :: verb
  r_path :: "segment list"
  r_middlewares :: "middleware list"
  r_handler :: handler

definition AuthRoute :: "route list" where
  "AuthRoute =
     [\<lparr>r_method = GET, r_path = [Param ''id''], r_middlewares = [],
       r_handler = AuthCtrl_readAvatar\<rparr>,
      \<lparr>r_method = POST, r_path = [], r_middlewares = [],
       r_handler = AuthCtrl_loginUser\<rparr>,
      \<lparr>r_method = POST, r_path = [Lit ''password''], r_middlewares = [],
       r_handler = AuthCtrl_forgotPassword\<rparr>,
      \<lparr>r_method = POST, r_path = [Lit ''recaptcha''], r_middlewares = [],
       r_handler = AuthCtrl_checkRecaptcha\<rparr>]"

definition ImageRoute :: "route list" where
  "ImageRoute =
     [\<lparr>r_method = GET, r_path = [], r_middlewares = [],
       r_handler = ImageCtrl_listImages\<rparr>,
      \<lparr>r_method = POST, r_path = [], r_middlewares = [checkAuth],
       r_handler = ImageCtrl_createImage\<rparr>,
      \<lparr>r_method = PUT, r_path = [Param ''id''], r_middlewares = [checkAuth],
       r_handler = ImageCtrl_updateImage\<rparr>,
      \<lparr>r_method = DELETE, r_path = [Param ''id''], r_middlewares = [checkAuth],
       r_handler = ImageCtrl_deleteImage\<rparr>]"

text \<open>
  A request, as far as routing reads it: the verb, the path below the router's
  mount point split at \<^verbatim>\<open>/\<close>, and the \<^verbatim>\<open>Authorization\<close> header.
\<close>

record request =
  q_method :: verb
  q_path :: "string list"
  q_authorization :: "string option"

fun path_matches :: "segment list \<Rightarrow> string list \<Rightarrow> bool" where
  "path_matches [] [] = True"
| "path_matches (Lit l # ps) (x # xs) = (l = x \<and> path_matches ps xs)"
| "path_matches (Param p # ps) (x # xs) = (x \<noteq> [] \<and> path_matches ps xs)"
| "path_matches _ _ = False"

definition route_matches :: "request \<Rightarrow> route \<Rightarrow> bool" where
  "route_matches q r = (r_method r = q_method q \<and> path_matches (r_path r) (q_path q))"

text \<open>
  Modelled from the spec: the middleware \<^verbatim>\<open>checkAuth\<close> of \<^verbatim>\<open>app/middlewares\<close> (not among
  the sources), the spec's bearer-token authentication. \<open>accepts\<close> is its verdict on
  the \<^verbatim>\<open>Authorization\<close> header; it calls \<^verbatim>\<open>next()\<close> when the verdict is positive and
  answers the request itself otherwise.
\<close>

fun run_middlewares :: "(string option \<Rightarrow> bool) \<Rightarrow> middleware list \<Rightarrow> request \<Rightarrow> bool" where
  "run_middlewares accepts [] q = True"
| "run_middlewares accepts (checkAuth # ms) q =
     (accepts (q_authorization q) \<and> run_middlewares accepts ms q)"

datatype served = Invoked handler | Stopped middleware | Unrouted

text \<open>
  The router tries its routes in the order of their registration; the first one whose
  verb and path match runs its middlewares and then, if they all called
  \<^verbatim>\<open>next()\<close>, its handler.
\<close>

definition serve :: "(string option \<Rightarrow> bool) \<Rightarrow> route list \<Rightarrow> request \<Rightarrow> served" where
  "serve accepts router q =
     (case find (route_matches q) router of
        None \<Rightarrow> Unrouted
      | Some r \<Rightarrow>
          if run_middlewares accepts (r_middlewares r) q then Invoked (r_handler r)
          else Stopped checkAuth)"

section \<open>Assertions and sample data\<close>

text \<open>
  What the client holds after one more \<^verbatim>\<open>res.json\<close>: the response already sent, or
  else the new one.
\<close>

definition first_sent :: "nat \<Rightarrow> json \<Rightarrow> (nat \<times> json) option \<Rightarrow> (nat \<times> json) option" where
  "first_sent c b r = (case r of None \<Rightarrow> Some (c, b) | Some x \<Rightarrow> Some x)"

text \<open>A property of the state in which a handler leaves the world, returned or thrown.\<close>

definition ends_in :: "(world \<Rightarrow> bool) \<Rightarrow> outcome \<Rightarrow> bool" where
  "ends_in P out = P (final out)"

text \<open>
  The constraints of the \<^verbatim>\<open>Images\<close> table: the primary key is unique and was handed
  out by the auto-increment counter, and \<^verbatim>\<open>url\<close> is unique.
\<close>

definition Images_wf :: "world \<Rightarrow> bool" where
  "Images_wf s =
     (distinct (map i_id (Images s)) \<and>
      list_all (\<lambda>r. i_id r < Images_seq s) (Images s) \<and>
      distinct (map i_url (Images s)))"

text \<open>
  The concrete configuration the evaluations below run in. Uploads arrive in \<^verbatim>\<open>img/\<close>,
  the extension is \<^verbatim>\<open>webp\<close>, every message variable holds its own name, names have 2
  to 50 characters, texts up to 250, an email needs an \<^verbatim>\<open>@\<close>, a password eight
  characters, and the stand-in for bcrypt prefixes the reversed plaintext.
\<close>

definition sample_env :: "string \<Rightarrow> string option" where
  "sample_env k =
     (if k = ''IMG_URL'' then Some ''img/''
      else if k = ''IMG_EXT'' then Some ''webp''
      else Some k)"

definition sample_cfg :: config where
  "sample_cfg =
     \<lparr>env = sample_env, STRING_MIN = 2, STRING_MAX = 50, TEXT_MAX = 250,
      checkEmail = (\<lambda>e. CHR ''@'' \<in> set e),
      checkPassword = (\<lambda>p. case p of None \<Rightarrow> False | Some t \<Rightarrow> 8 \<le> length t),
      getName = (\<lambda>n. n),
      bcrypt_hash = (\<lambda>p c. ''$2b$'' @ rev p)\<rparr>"

text \<open>One user and one image, each with its file on disk.\<close>

definition ann :: user_row where
  "ann = \<lparr>u_id = 1, u_name = ''Ann'', u_email = ''ann@x.com'',
          u_image = ''Ann-1.webp'', u_password = ''$2b$ss@Pgn0rtS''\<rparr>"

definition pic :: image_row where
  "pic = \<lparr>i_id = 1, i_url = ''a.webp'', i_description = ''first'', i_gallery = ''g''\<rparr>"

definition portfolio :: world where
  "portfolio =
     \<lparr>Images = [pic], Images_seq = 2, Users = [ann], Users_seq = 2,
      disk = {''img/a.webp'', ''img/users/Ann-1.webp''}, db_up = True, sent = None\<rparr>"

text \<open>The same, with a file that formidable has just stored in the users' directory.\<close>

definition portfolio_with_upload :: world where
  "portfolio_with_upload =
     portfolio\<lparr>disk := {''img/a.webp'', ''img/users/Ann-1.webp'', ''img/users/up.webp''}\<rparr>"

text \<open>The form of a sign-up.\<close>

definition bob :: user_fields where
  "bob = \<lparr>name = ''Bob'', email = ''bob@x.com'', password = Some ''Str0ngP@ss''\<rparr>"

text \<open>
  A table whose only image has the url \<^verbatim>\<open>undefined\<close>, with its file and a fresh upload
  on disk.
\<close>

definition named_undefined :: world where
  "named_undefined =
     \<lparr>Images = [\<lparr>i_id = 1, i_url = ''undefined'', i_description = ''first'',
                 i_gallery = ''g''\<rparr>],
      Images_seq = 2, Users = [], Users_seq = 1,
      disk = {''img/undefined'', ''img/up.webp''}, db_up = True, sent = None\<rparr>"

section \<open>Lemmas about the steps\<close>

subsection \<open>The uniqueness loops in closed form\<close>

text \<open>
  A loop of checks sends at most one response: rows that do not collide are passed
  over, the first collision sends \<^verbatim>\<open>403\<close>, and a collision met when a response is
  already out throws.
\<close>

lemma forEach_checkImageUnique:
  "forEach (checkImageUnique cfg u) xs s =
     (if filter (\<lambda>r. i_url r = u) xs = [] then Done s
      else case sent s of
        None \<Rightarrow>
          if length (filter (\<lambda>r. i_url r = u) xs) = 1
          then Done (s\<lparr>sent := Some (403, message (env cfg ''DISPO_URL''))\<rparr>)
          else Threw ERR_HTTP_HEADERS_SENT
                 (s\<lparr>sent := Some (403, message (env cfg ''DISPO_URL''))\<rparr>)
      | Some r \<Rightarrow> Threw ERR_HTTP_HEADERS_SENT s)"
proof (induction xs arbitrary: s)
  case Nil
  show ?case by simp
next
  case (Cons x xs)
  have hd: "checkImageUnique cfg u x s =
      (if i_url x = u then json_res 403 (message (env cfg ''DISPO_URL'')) s else Done s)"
    by (simp add: checkImageUnique_def)
  show ?case
    by (cases "sent s") (simp_all add: hd Cons.IH json_res_def)
qed

lemma forEach_checkUserUnique:
  "forEach (checkUserUnique cfg n e) xs s =
     (if filter (\<lambda>r. u_name r = n \<or> u_email r = e) xs = [] then Done s
      else case sent s of
        None \<Rightarrow>
          if length (filter (\<lambda>r. u_name r = n \<or> u_email r = e) xs) = 1
          then Done (s\<lparr>sent := Some (403,
                 message (js_or (env cfg ''DISPO_NAME'') (env cfg ''DISPO_EMAIL'')))\<rparr>)
          else Threw ERR_HTTP_HEADERS_SENT
                 (s\<lparr>sent := Some (403,
                    message (js_or (env cfg ''DISPO_NAME'') (env cfg ''DISPO_EMAIL'')))\<rparr>)
      | Some r \<Rightarrow> Threw ERR_HTTP_HEADERS_SENT s)"
proof (induction xs arbitrary: s)
  case Nil
  show ?case by simp
next
  case (Cons x xs)
  have hd: "checkUserUnique cfg n e x s =
      (if u_name x = n \<or> u_email x = e
       then json_res 403
              (message (js_or (env cfg ''DISPO_NAME'') (env cfg ''DISPO_EMAIL''))) s
       else Done s)"
    by (simp add: checkUserUnique_def)
  show ?case
    by (cases "sent s") (simp_all add: hd Cons.IH json_res_def)
qed

subsection \<open>The state each step ends in\<close>

lemma final_json_res [simp]:
  "final (json_res c b s) = s\<lparr>sent := first_sent c b (sent s)\<rparr>"
  by (simp add: json_res_def first_sent_def split: option.splits)

lemma final_unlink [simp]:
  "final (unlink p s) = s\<lparr>disk := disk s - {p}\<rparr>"
  by (simp add: unlink_def)

lemma final_setImage [simp]:
  "final (setImage cfg i out s) =
     s\<lparr>disk := (if str (env cfg ''IMG_URL'') @ i \<in> disk s
                 then insert (str (env cfg ''IMG_URL'') @ out) (disk s) else disk s)\<rparr>"
  by (simp add: setImage_def Let_def)

lemma final_setImages [simp]:
  "final (setImages cfg i out s) = final (setImage cfg i out s)"
  by (simp add: setImages_def)

lemma final_UserCtrl_setImage [simp]:
  "final (UserCtrl_setImage i out s) = s"
  by (simp add: UserCtrl_setImage_def)

lemma final_upload_steps [simp]:
  "final (andThen (setImages cfg i out s) (unlink p)) =
     (if str (env cfg ''IMG_URL'') @ i \<in> disk s
      then s\<lparr>disk := insert (str (env cfg ''IMG_URL'') @ out) (disk s) - {p}\<rparr> else s)"
  "final (andThen (UserCtrl_setImage i out s) (unlink p)) = s\<lparr>disk := disk s - {p}\<rparr>"
  "final (andThen (unlink p s)
      (\<lambda>s. case updateImage_IMG_EXT of Inl e \<Rightarrow> Threw e s | Inr ext \<Rightarrow> f ext s)) =
     s\<lparr>disk := disk s - {p}\<rparr>"
  by (simp_all add: setImages_def setImage_def UserCtrl_setImage_def unlink_def Let_def
      updateImage_IMG_EXT_def)

lemma final_checkImageData [simp]:
  "final (checkImageData cfg d s) =
     s\<lparr>sent := (if checkRange (Some d) (STRING_MIN cfg) (TEXT_MAX cfg) then sent s
                 else first_sent 403 (message (env cfg ''CHECK_NAME'')) (sent s))\<rparr>"
  by (simp add: checkImageData_def)

lemma final_forEach_checkImageUnique [simp]:
  "final (forEach (checkImageUnique cfg u) xs s) =
     s\<lparr>sent := (if filter (\<lambda>r. i_url r = u) xs = [] then sent s
                 else first_sent 403 (message (env cfg ''DISPO_URL'')) (sent s))\<rparr>"
  by (simp add: forEach_checkImageUnique first_sent_def split: option.splits)

lemma final_checkUserData [simp]:
  "final (checkUserData cfg n e s) =
     s\<lparr>sent := (if checkRange (Some n) (STRING_MIN cfg) (STRING_MAX cfg) \<and> checkEmail cfg e
                 then sent s
                 else first_sent 403
                        (message (js_or (env cfg ''CHECK_NAME'') (env cfg ''CHECK_EMAIL'')))
                        (sent s))\<rparr>"
  by (simp add: checkUserData_def Let_def)

lemma final_checkUserPassword [simp]:
  "final (checkUserPassword cfg pw s) =
     s\<lparr>sent := (if checkPassword cfg pw then sent s
                 else first_sent 403 (message (env cfg ''CHECK_PASSWORD'')) (sent s))\<rparr>"
  by (simp add: checkUserPassword_def)

lemma final_forEach_checkUserUnique [simp]:
  "final (forEach (checkUserUnique cfg n e) xs s) =
     s\<lparr>sent := (if filter (\<lambda>r. u_name r = n \<or> u_email r = e) xs = [] then sent s
                 else first_sent 403
                        (message (js_or (env cfg ''DISPO_NAME'') (env cfg ''DISPO_EMAIL'')))
                        (sent s))\<rparr>"
  by (simp add: forEach_checkUserUnique first_sent_def split: option.splits)

lemma final_Image_create [simp]:
  "final (Image_create u d g s) =
     (if db_up s \<and> u \<notin> set (map i_url (Images s))
      then s\<lparr>Images := Images s @
                [\<lparr>i_id = Images_seq s, i_url = u, i_description = d, i_gallery = g\<rparr>],
              Images_seq := Suc (Images_seq s)\<rparr>
      else s)"
  by (simp add: Image_create_def)

lemma final_Image_update [simp]:
  "final (Image_update ID u d g s) =
     (if db_up s \<and> \<not> (ID \<in> set (map i_id (Images s)) \<and>
              u \<in> set (map i_url (filter (\<lambda>r. i_id r \<noteq> ID) (Images s))))
      then s\<lparr>Images :=
                map (\<lambda>r. if i_id r = ID
                          then r\<lparr>i_url := u, i_description := d, i_gallery := g\<rparr>
                          else r) (Images s)\<rparr>
      else s)"
  by (simp add: Image_update_def)

lemma final_User_create [simp]:
  "final (User_create n e i p s) =
     (if db_up s \<and> n \<notin> set (map u_name (Users s)) \<and> e \<notin> set (map u_email (Users s)) \<and>
         i \<notin> set (map u_image (Users s))
      then s\<lparr>Users := Users s @
                [\<lparr>u_id = Users_seq s, u_name = n, u_email = e, u_image = i, u_password = p\<rparr>],
              Users_seq := Suc (Users_seq s)\<rparr>
      else s)"
  by (simp add: User_create_def)

lemma final_User_update:
  "final (User_update ID n e i p s) = s \<or>
   final (User_update ID n e i p s) =
     s\<lparr>Users := map (\<lambda>r. if u_id r = ID
              then r\<lparr>u_name := n, u_email := e,
                     u_image := (case i of None \<Rightarrow> u_image r | Some f \<Rightarrow> f),
                     u_password := (case p of None \<Rightarrow> u_password r | Some h \<Rightarrow> h)\<rparr>
              else r) (Users s)\<rparr>"
  by (simp add: User_update_def Let_def)

lemma User_update_frame [simp]:
  "Images (final (User_update ID n e i p s)) = Images s"
  "disk (final (User_update ID n e i p s)) = disk s"
  "db_up (final (User_update ID n e i p s)) = db_up s"
  "sent (final (User_update ID n e i p s)) = sent s"
  using final_User_update [of ID n e i p s] by auto

lemma final_User_update_rows:
  "r \<in> set (Users (final (User_update ID n e i (Some h) s))) \<Longrightarrow>
   r \<in> set (Users s) \<or> u_password r = h"
  using final_User_update [of ID n e i "Some h" s] by auto

subsection \<open>What the reads resolve to\<close>

lemma updateImage_IMG_EXT_iff [simp]:
  "(updateImage_IMG_EXT = Inr ext) = False"
  "(updateImage_IMG_EXT = Inl e) = (e = ReferenceError)"
  by (auto simp: updateImage_IMG_EXT_def)

lemma User_findAll_iff [simp]:
  "(User_findAll s = Inr users) = (db_up s \<and> users = Users s)"
  "(User_findAll s = Inl e) = (\<not> db_up s \<and> e = SequelizeConnectionError)"
  by (auto simp: User_findAll_def)

lemma Image_findAll_where_gallery_iff [simp]:
  "(Image_findAll_where_gallery g s = Inr images) =
     (db_up s \<and> images = filter (\<lambda>r. i_gallery r = g) (Images s))"
  "(Image_findAll_where_gallery g s = Inl e) = (\<not> db_up s \<and> e = SequelizeConnectionError)"
  by (auto simp: Image_findAll_where_gallery_def)

lemma bcrypt_hash_js_iff [simp]:
  "(bcrypt_hash_js cfg pw c = Inr h) = (\<exists>p. pw = Some p \<and> h = bcrypt_hash cfg p c)"
  by (auto simp: bcrypt_hash_js_def split: option.splits)

subsection \<open>Rules for the state a handler ends in\<close>

text \<open>
  A property holds where \<^verbatim>\<open>a; b\<close> ends if it holds where \<^verbatim>\<open>a\<close> ends (should \<^verbatim>\<open>a\<close>
  throw) and where \<^verbatim>\<open>b\<close> ends when started there; likewise for the handler of a
  \<^verbatim>\<open>catch\<close>, which starts wherever the \<^verbatim>\<open>try\<close> stopped.
\<close>

lemma ends_in_andThen:
  "ends_in P out \<Longrightarrow> ends_in P (f (final out)) \<Longrightarrow> ends_in P (andThen out f)"
  by (cases out) (simp_all add: ends_in_def)

lemma ends_in_catch:
  "ends_in P out \<Longrightarrow> (\<And>t. P t \<Longrightarrow> ends_in P (h t)) \<Longrightarrow> ends_in P (catch out h)"
  by (cases out) (simp_all add: ends_in_def)

lemma ends_in_if:
  "(c \<Longrightarrow> ends_in P a) \<Longrightarrow> (\<not> c \<Longrightarrow> ends_in P b) \<Longrightarrow> ends_in P (if c then a else b)"
  by simp

lemma ends_in_sum:
  "(\<And>e. x = Inl e \<Longrightarrow> ends_in P (f e)) \<Longrightarrow> (\<And>v. x = Inr v \<Longrightarrow> ends_in P (g v)) \<Longrightarrow>
   ends_in P (case x of Inl e \<Rightarrow> f e | Inr v \<Rightarrow> g v)"
  by (cases x) simp_all

lemma ends_in_Let:
  "ends_in P (f x) \<Longrightarrow> ends_in P (Let x f)"
  by simp

lemmas vcg = ends_in_andThen ends_in_catch ends_in_if ends_in_sum ends_in_Let

subsection \<open>Rows and keys\<close>

lemma find_by_key:
  "distinct (map f xs) \<Longrightarrow> r \<in> set xs \<Longrightarrow> find (\<lambda>u. f u = f r) xs = Some r"
  by (induction xs) (auto simp: image_iff)

lemma User_update_keeps_image:
  assumes "distinct (map u_id (Users s))" "Users t = Users s"
  shows "map u_image (Users (final (User_update ID n e
           (map_option u_image (find (\<lambda>user. u_id user = ID) (Users s))) p t))) =
         map u_image (Users s)"
proof -
  have "\<And>r. r \<in> set (Users s) \<Longrightarrow> u_id r = ID \<Longrightarrow>
      find (\<lambda>user. u_id user = ID) (Users s) = Some r"
    using find_by_key [OF assms(1)] by blast
  then show ?thesis
    using assms(2) by (auto simp: User_update_def Let_def)
qed

lemma update_other_id:
  "ID \<notin> set (map i_id xs) \<Longrightarrow> map (\<lambda>r. if i_id r = ID then f r else r) xs = xs"
  by (induction xs) auto

lemma distinct_url_update:
  assumes "distinct (map i_id xs)" "distinct (map i_url xs)"
    "u \<notin> set (map i_url (filter (\<lambda>r. i_id r \<noteq> ID) xs))"
  shows "distinct (map i_url
           (map (\<lambda>r. if i_id r = ID
                     then r\<lparr>i_url := u, i_description := d, i_gallery := g\<rparr> else r) xs))"
  using assms
proof (induction xs)
  case Nil
  show ?case by simp
next
  case (Cons x xs)
  show ?case
  proof (cases "i_id x = ID")
    case True
    with Cons.prems have fresh: "ID \<notin> set (map i_id xs)" by auto
    then have same: "map (\<lambda>r. if i_id r = ID
        then r\<lparr>i_url := u, i_description := d, i_gallery := g\<rparr> else r) xs = xs"
      by (rule update_other_id)
    from fresh have "filter (\<lambda>r. i_id r \<noteq> ID) xs = xs"
      by (auto simp: filter_id_conv)
    with Cons.prems True have "u \<notin> set (map i_url xs)" by simp
    with Cons.prems True same show ?thesis by simp
  next
    case False
    have sub: "set (map i_url (map (\<lambda>r. if i_id r = ID
        then r\<lparr>i_url := u, i_description := d, i_gallery := g\<rparr> else r) xs))
        \<subseteq> insert u (set (map i_url xs))"
      by auto
    from Cons.prems False have "i_url x \<noteq> u" "i_url x \<notin> set (map i_url xs)" by auto
    with sub have "i_url x \<notin> set (map i_url (map (\<lambda>r. if i_id r = ID
        then r\<lparr>i_url := u, i_description := d, i_gallery := g\<rparr> else r) xs))"
      by blast
    moreover have "distinct (map i_url (map (\<lambda>r. if i_id r = ID
        then r\<lparr>i_url := u, i_description := d, i_gallery := g\<rparr> else r) xs))"
      using Cons.IH Cons.prems False by simp
    ultimately show ?thesis using False by simp
  qed
qed

lemma Images_wf_frame [simp]:
  "Images_wf (s\<lparr>sent := x\<rparr>) = Images_wf s"
  "Images_wf (s\<lparr>disk := d\<rparr>) = Images_wf s"
  by (simp_all add: Images_wf_def)

lemma Images_wf_create:
  "Images_wf s \<Longrightarrow> Images_wf (final (Image_create u d g s))"
  by (auto simp: Images_wf_def list_all_iff elim: less_asym)

lemma Images_wf_update:
  assumes "Images_wf s"
  shows "Images_wf (final (Image_update ID u d g s))"
proof (cases "ID \<in> set (map i_id (Images s))")
  case False
  then have "map (\<lambda>r. if i_id r = ID
      then r\<lparr>i_url := u, i_description := d, i_gallery := g\<rparr> else r) (Images s) = Images s"
    by (rule update_other_id)
  with assms show ?thesis by (simp add: Images_wf_def)
next
  case True
  have ids: "map i_id (map (\<lambda>r. if i_id r = ID
      then r\<lparr>i_url := u, i_description := d, i_gallery := g\<rparr> else r) (Images s)) =
      map i_id (Images s)"
    by (induction "Images s") auto
  show ?thesis
    using assms True ids
      distinct_url_update [where xs = "Images s" and u = u and ID = ID and d = d and g = g]
    by (auto simp: Images_wf_def list_all_iff simp del: map_map)
qed

subsection \<open>Unfolding everything, for evaluation on sample data\<close>

lemmas sample_defs = sample_cfg_def sample_env_def portfolio_def portfolio_with_upload_def
  ann_def pic_def bob_def named_undefined_def

lemmas handler_defs =
  createImage_def createImage_try_def updateImage_def updateImage_try_def
  deleteImage_def deleteImage_try_def createUser_def createUser_try_def
  updateUser_def updateUser_try_def deleteUser_def deleteUser_try_def
  readUser_def listUsers_def
  checkImageData_def checkImageUnique_def checkUserData_def checkUserPassword_def
  checkUserUnique_def checkRange_def row_image_def updateImage_IMG_EXT_def
  Image_findAll_where_gallery_def Image_findByPk_def Image_create_def Image_update_def
  Image_destroy_def User_findAll_def User_findByPk_def User_create_def User_update_def
  User_destroy_def setImages_def setImage_def UserCtrl_setImage_def USERS_IMG_def unlink_def
  bcrypt_hash_js_def json_res_def status_of_def next_request_def message_def js_or_def
  str_def truthy_def user_json_def listUsers_entry_def Images_wf_def Let_def insert_Diff_if

lemmas image_steps = checkImageData_def forEach_checkImageUnique
  Image_findAll_where_gallery_def setImages_def setImage_def unlink_def Image_create_def
  Image_update_def json_res_def status_of_def row_image_def updateImage_IMG_EXT_def
  Let_def

section \<open>Replacing the file of an image\<close>

text \<open>
  What \<^verbatim>\<open>updateImage\<close> does with an uploaded file, on every state and every form: no row
  of the \<^verbatim>\<open>Images\<close> table changes, and the files on disk are what they were, except
  that a file at \<^verbatim>\<open>IMG_URL + "undefined"\<close> is removed if the handler gets as far as its
  first unlink. The handler means to unlink the old file of the row and then to
  store the upload and update the row; it reads the old name from a property the row
  does not have, and stops at the unbound \<^verbatim>\<open>IMG_EXT\<close> before anything is stored or
  updated.
\<close>

lemma updateImage_with_upload_changes_no_row:
  assumes "truthy upload"
  shows "Images (final (updateImage cfg now ID flds upload s)) = Images s \<and>
         (disk (final (updateImage cfg now ID flds upload s)) = disk s \<or>
          disk (final (updateImage cfg now ID flds upload s)) =
            disk s - {str (env cfg ''IMG_URL'') @ ''undefined''})"
  using assms
  by (auto simp: updateImage_def updateImage_try_def image_steps truthy_def str_def
      split: option.splits if_splits)

text \<open>
  On the sample data: replacing the file of image 1 (stored as \<^verbatim>\<open>a.webp\<close>) is answered
  \<^verbatim>\<open>400\<close>; the row, its file and the upload are all left as they were.
\<close>

lemma updateImage_with_upload_on_sample:
  "status_of (final (updateImage sample_cfg ''17'' 1
      \<lparr>url = ''a.webp'', description = ''second'', gallery = ''g''\<rparr> (Some ''up.webp'')
      (portfolio\<lparr>disk := {''img/a.webp'', ''img/up.webp''}\<rparr>))) = Some 400 \<and>
   Images (final (updateImage sample_cfg ''17'' 1
      \<lparr>url = ''a.webp'', description = ''second'', gallery = ''g''\<rparr> (Some ''up.webp'')
      (portfolio\<lparr>disk := {''img/a.webp'', ''img/up.webp''}\<rparr>))) = [pic] \<and>
   disk (final (updateImage sample_cfg ''17'' 1
      \<lparr>url = ''a.webp'', description = ''second'', gallery = ''g''\<rparr> (Some ''up.webp'')
      (portfolio\<lparr>disk := {''img/a.webp'', ''img/up.webp''}\<rparr>))) =
     {''img/a.webp'', ''img/up.webp''}"
  by (simp add: handler_defs sample_defs)


section \<open>Failed checks\<close>

text \<open>
  C2. The claim is that a failed validation or uniqueness check is reported with
  \<^verbatim>\<open>403\<close> before any mutation. The checks do send \<^verbatim>\<open>403\<close>, but the handlers ignore what
  the checks return and carry on. On the sample data: an image whose description has
  one character (the minimum is two) is answered \<^verbatim>\<open>403\<close> and its row is inserted all the
  same; a sign-up under the name of an existing user is answered \<^verbatim>\<open>403\<close>, the table is
  left alone only because the store refuses the duplicate, and the uploaded file has
  been removed from disk.
\<close>

theorem handlers_continue_after_403:
  "status_of (final (createImage sample_cfg ''17''
      \<lparr>url = ''b.webp'', description = ''x'', gallery = ''g''\<rparr> None portfolio)) = Some 403 \<and>
   Images (final (createImage sample_cfg ''17''
      \<lparr>url = ''b.webp'', description = ''x'', gallery = ''g''\<rparr> None portfolio)) =
     [pic, \<lparr>i_id = 2, i_url = ''b.webp'', i_description = ''x'', i_gallery = ''g''\<rparr>] \<and>
   status_of (final (createUser sample_cfg ''17'' (bob\<lparr>name := ''Ann''\<rparr>)
      (Some ''up.webp'') portfolio_with_upload)) = Some 403 \<and>
   Users (final (createUser sample_cfg ''17'' (bob\<lparr>name := ''Ann''\<rparr>)
      (Some ''up.webp'') portfolio_with_upload)) = [ann] \<and>
   ''img/users/up.webp'' \<in> disk portfolio_with_upload \<and>
   ''img/users/up.webp'' \<notin> disk (final (createUser sample_cfg ''17'' (bob\<lparr>name := ''Ann''\<rparr>)
      (Some ''up.webp'') portfolio_with_upload))"
  by (simp add: handler_defs sample_defs)

section \<open>Reading users\<close>

text \<open>
  C3. The claim is that no read endpoint returns the password. \<^verbatim>\<open>listUsers\<close> builds its
  entries without it, but \<^verbatim>\<open>readUser\<close> passes the row it found to \<^verbatim>\<open>res.json\<close>: on the
  sample data the body of \<^verbatim>\<open>GET /users/1\<close> has a \<^verbatim>\<open>password\<close> property holding the stored
  hash, while the listing of the same user has none.
\<close>

theorem readUser_sends_password:
  "sent (final (readUser sample_cfg 1 portfolio)) =
     Some (200, JObj [(''id'', JNum 1), (''name'', JStr ''Ann''),
       (''email'', JStr ''ann@x.com''), (''image'', JStr ''Ann-1.webp''),
       (''password'', JStr ''$2b$ss@Pgn0rtS'')]) \<and>
   ''password'' \<in> set (fields_of (user_json (Some ann))) \<and>
   sent (final (listUsers sample_cfg portfolio)) =
     Some (200, JArr [JObj [(''id'', JNum 1), (''name'', JStr ''Ann''),
       (''email'', JStr ''ann@x.com''), (''image'', JStr ''Ann-1.webp'')]]) \<and>
   ''password'' \<notin> set (fields_of (listUsers_entry ann))"
  by (simp add: handler_defs sample_defs first_sent_def)

section \<open>Storing an uploaded file\<close>

text \<open>
  C4. The claim is that a create or update request with an uploaded file stores
  exactly one new file under the generated name before the upload is removed.
  \<^verbatim>\<open>setImage\<close> of \<^verbatim>\<open>UserCtrl\<close> stores nothing. On the sample data a sign-up with an
  upload is answered \<^verbatim>\<open>201\<close> and the new row names \<^verbatim>\<open>Bob-17.webp\<close>, yet the only change
  on disk is that the upload is gone: no file of that name exists.
\<close>

theorem createUser_stores_no_file:
  "status_of (final (createUser sample_cfg ''17'' bob (Some ''up.webp'')
      portfolio_with_upload)) = Some 201 \<and>
   map u_image (Users (final (createUser sample_cfg ''17'' bob (Some ''up.webp'')
      portfolio_with_upload))) = [''Ann-1.webp'', ''Bob-17.webp''] \<and>
   disk (final (createUser sample_cfg ''17'' bob (Some ''up.webp'')
      portfolio_with_upload)) = {''img/a.webp'', ''img/users/Ann-1.webp''} \<and>
   disk portfolio_with_upload =
     {''img/a.webp'', ''img/users/Ann-1.webp'', ''img/users/up.webp''}"
  by (simp add: handler_defs sample_defs)

section \<open>Deleting\<close>

text \<open>
  C5, as amended. The claim has two parts. Deleting twice does end in \<^verbatim>\<open>404\<close> the
  second time; but a stored file that is missing is not tolerated: \<^verbatim>\<open>unlink\<close> rejects,
  \<^verbatim>\<open>deleteImage\<close> answers \<^verbatim>\<open>400\<close> and the row stays.

  When the database answers: deleting an image whose stored file (\<^verbatim>\<open>IMG_URL + url\<close>) is
  on disk answers \<^verbatim>\<open>204\<close> and removes the row and the file, and deleting the same id
  again answers \<^verbatim>\<open>404\<close> and changes neither rows nor files; deleting an image whose
  stored file is not on disk answers \<^verbatim>\<open>400\<close> and changes nothing; deleting a user
  answers \<^verbatim>\<open>204\<close> and removes the row, and deleting the same id again answers \<^verbatim>\<open>404\<close>.
\<close>

theorem delete_twice:
  assumes "db_up s" and "sent s = None"
  shows
   "(find (\<lambda>r. i_id r = ID) (Images s) = Some row \<and>
     str (env cfg ''IMG_URL'') @ i_url row \<in> disk s \<longrightarrow>
       status_of (final (deleteImage cfg ID s)) = Some 204 \<and>
       Images (final (deleteImage cfg ID s)) = filter (\<lambda>r. i_id r \<noteq> ID) (Images s) \<and>
       disk (final (deleteImage cfg ID s)) = disk s - {str (env cfg ''IMG_URL'') @ i_url row} \<and>
       status_of (final (deleteImage cfg ID (next_request (final (deleteImage cfg ID s)))))
         = Some 404 \<and>
       Images (final (deleteImage cfg ID (next_request (final (deleteImage cfg ID s)))))
         = Images (final (deleteImage cfg ID s)) \<and>
       disk (final (deleteImage cfg ID (next_request (final (deleteImage cfg ID s)))))
         = disk (final (deleteImage cfg ID s))) \<and>
    (find (\<lambda>r. i_id r = ID) (Images s) = Some row \<and>
     str (env cfg ''IMG_URL'') @ i_url row \<notin> disk s \<longrightarrow>
       status_of (final (deleteImage cfg ID s)) = Some 400 \<and>
       Images (final (deleteImage cfg ID s)) = Images s \<and>
       disk (final (deleteImage cfg ID s)) = disk s) \<and>
    (find (\<lambda>r. u_id r = ID) (Users s) = Some user \<longrightarrow>
       status_of (final (deleteUser cfg ID s)) = Some 204 \<and>
       Users (final (deleteUser cfg ID s)) = filter (\<lambda>r. u_id r \<noteq> ID) (Users s) \<and>
       status_of (final (deleteUser cfg ID (next_request (final (deleteUser cfg ID s)))))
         = Some 404)"
proof -
  have gone: "find (\<lambda>r. i_id r = ID) (filter (\<lambda>r. i_id r \<noteq> ID) (Images s)) = None"
    "find (\<lambda>r. u_id r = ID) (filter (\<lambda>r. u_id r \<noteq> ID) (Users s)) = None"
    by (simp_all add: find_None_iff)
  show ?thesis
    using assms gone
    by (simp add: deleteImage_def deleteImage_try_def Image_findByPk_def Image_destroy_def
        deleteUser_def deleteUser_try_def User_findByPk_def User_destroy_def
        unlink_def json_res_def status_of_def next_request_def)
qed

theorem delete_twice_witness:
  "status_of (final (deleteImage sample_cfg 1 portfolio)) = Some 204 \<and>
   Images (final (deleteImage sample_cfg 1 portfolio)) = [] \<and>
   disk (final (deleteImage sample_cfg 1 portfolio)) = {''img/users/Ann-1.webp''} \<and>
   status_of (final (deleteImage sample_cfg 1
     (next_request (final (deleteImage sample_cfg 1 portfolio))))) = Some 404 \<and>
   status_of (final (deleteImage sample_cfg 1 (portfolio\<lparr>disk := {}\<rparr>))) = Some 400 \<and>
   status_of (final (deleteUser sample_cfg 1
     (next_request (final (deleteUser sample_cfg 1 portfolio))))) = Some 404"
  using delete_twice [where s = portfolio and ID = 1 and row = pic and cfg = sample_cfg
      and user = ann]
    delete_twice [where s = "portfolio\<lparr>disk := {}\<rparr>" and ID = 1 and row = pic
      and cfg = sample_cfg and user = ann]
  by (simp add: sample_defs str_def insert_Diff_if)

text \<open>
  The claim fails on this request: image 1 is in the table and its file is not on
  disk; \<^verbatim>\<open>deleteImage\<close> answers \<^verbatim>\<open>400\<close> and the row is still there.
\<close>

theorem deleteImage_missing_file_is_an_error:
  "find (\<lambda>r. i_id r = 1) (Images (portfolio\<lparr>disk := {}\<rparr>)) = Some pic \<and>
   status_of (final (deleteImage sample_cfg 1 (portfolio\<lparr>disk := {}\<rparr>))) = Some 400 \<and>
   Images (final (deleteImage sample_cfg 1 (portfolio\<lparr>disk := {}\<rparr>))) = [pic]"
  by (simp add: handler_defs sample_defs)

section \<open>Updating without a new file\<close>

text \<open>
  C6, as amended. The claim is that an update without a new file leaves the stored
  filename of the row as it was. That holds for a user, whose \<^verbatim>\<open>image\<close> column is
  written back from the row itself. An image row has no column of its own for the
  name: its file is the one \<^verbatim>\<open>deleteImage\<close> unlinks, \<^verbatim>\<open>IMG_URL + url\<close>, and \<^verbatim>\<open>url\<close> is a
  field of the form that \<^verbatim>\<open>Image.update({ ...fields })\<close> overwrites.

  For every update request without an uploaded file: no file on disk changes; the
  \<^verbatim>\<open>image\<close> column of every user row is what it was (ids being the primary key); and the
  \<^verbatim>\<open>Images\<close> table is either what it was or has, in the rows of the request's id, the
  \<^verbatim>\<open>url\<close>, \<^verbatim>\<open>description\<close> and \<^verbatim>\<open>gallery\<close> of the form.
\<close>

theorem update_without_file:
  assumes "\<not> truthy upload" and "distinct (map u_id (Users s))"
  shows "map u_image (Users (final (updateUser cfg now ID uflds upload s))) =
           map u_image (Users s) \<and>
         disk (final (updateUser cfg now ID uflds upload s)) = disk s \<and>
         disk (final (updateImage cfg now ID flds upload s)) = disk s \<and>
         (Images (final (updateImage cfg now ID flds upload s)) = Images s \<or>
          Images (final (updateImage cfg now ID flds upload s)) =
            map (\<lambda>r. if i_id r = ID
                      then r\<lparr>i_url := url flds, i_description := description flds,
                             i_gallery := gallery flds\<rparr>
                      else r) (Images s))"
proof -
  have "ends_in (\<lambda>t. map u_image (Users t) = map u_image (Users s) \<and> disk t = disk s)
          (updateUser cfg now ID uflds upload s)"
    unfolding updateUser_def updateUser_try_def
    by (intro vcg; simp add: ends_in_def assms User_update_keeps_image)
  moreover have "ends_in (\<lambda>t. disk t = disk s \<and>
      (Images t = Images s \<or>
       Images t =
         map (\<lambda>r. if i_id r = ID
                   then r\<lparr>i_url := url flds, i_description := description flds,
                          i_gallery := gallery flds\<rparr>
                   else r) (Images s)))
          (updateImage cfg now ID flds upload s)"
    unfolding updateImage_def updateImage_try_def
    by (intro vcg; simp add: ends_in_def assms)
  ultimately show ?thesis by (simp add: ends_in_def)
qed

theorem update_without_file_witness:
  "map u_image (Users (final (updateUser sample_cfg ''17'' 1
      \<lparr>name = ''Anna'', email = ''anna@x.com'', password = None\<rparr> None portfolio))) =
     [''Ann-1.webp''] \<and>
   map u_name (Users (final (updateUser sample_cfg ''17'' 1
      \<lparr>name = ''Anna'', email = ''anna@x.com'', password = None\<rparr> None portfolio))) =
     [''Anna''] \<and>
   disk (final (updateImage sample_cfg ''17'' 1
      \<lparr>url = ''a.webp'', description = ''second'', gallery = ''g''\<rparr> None portfolio)) =
     {''img/a.webp'', ''img/users/Ann-1.webp''}"
  using update_without_file [where upload = None and s = portfolio and cfg = sample_cfg
      and now = "''17''" and ID = 1
      and uflds = "\<lparr>name = ''Anna'', email = ''anna@x.com'', password = None\<rparr>"
      and flds = "\<lparr>url = ''a.webp'', description = ''second'', gallery = ''g''\<rparr>"]
  by (simp add: handler_defs sample_defs)

text \<open>
  The claim fails on this request: image 1 is stored as \<^verbatim>\<open>a.webp\<close>; an update without a
  file whose form names \<^verbatim>\<open>b.webp\<close> is answered \<^verbatim>\<open>200\<close>, the row now refers to \<^verbatim>\<open>b.webp\<close>,
  and the files are what they were, so the row's file is no longer on disk.
\<close>

theorem updateImage_without_file_renames:
  "map i_url (Images portfolio) = [''a.webp''] \<and>
   status_of (final (updateImage sample_cfg ''17'' 1
      \<lparr>url = ''b.webp'', description = ''second'', gallery = ''g''\<rparr> None portfolio)) =
     Some 200 \<and>
   map i_url (Images (final (updateImage sample_cfg ''17'' 1
      \<lparr>url = ''b.webp'', description = ''second'', gallery = ''g''\<rparr> None portfolio))) =
     [''b.webp''] \<and>
   disk (final (updateImage sample_cfg ''17'' 1
      \<lparr>url = ''b.webp'', description = ''second'', gallery = ''g''\<rparr> None portfolio)) =
     {''img/a.webp'', ''img/users/Ann-1.webp''}"
  by (simp add: handler_defs sample_defs)

section \<open>Uniqueness of an image's url\<close>




section \<open>Stored passwords\<close>

text \<open>
  Where the handlers do hash. Whenever \<^verbatim>\<open>createUser\<close> runs with a password in the form,
  and whenever \<^verbatim>\<open>updateUser\<close> runs with a password that is not the empty string, every
  row of the \<^verbatim>\<open>Users\<close> table that the request wrote carries \<^verbatim>\<open>bcrypt.hash(password, 10)\<close>
  as its password: each row of the table afterwards is a row that was there before, or
  has that hash.
\<close>

lemma truthy_password_is_hashed:
  "(password flds = Some p \<longrightarrow>
      (\<forall>r\<in>set (Users (final (createUser cfg now flds upload s))).
         r \<in> set (Users s) \<or> u_password r = bcrypt_hash cfg p 10)) \<and>
   (password flds = Some p \<and> p \<noteq> [] \<longrightarrow>
      (\<forall>r\<in>set (Users (final (updateUser cfg now ID flds upload s))).
         r \<in> set (Users s) \<or> u_password r = bcrypt_hash cfg p 10))"
proof (intro conjI impI)
  assume pw: "password flds = Some p"
  have "ends_in (\<lambda>t. \<forall>r\<in>set (Users t).
          r \<in> set (Users s) \<or> u_password r = bcrypt_hash cfg p 10)
          (createUser cfg now flds upload s)"
    unfolding createUser_def createUser_try_def
    by (intro vcg; simp add: ends_in_def pw)
  then show "\<forall>r\<in>set (Users (final (createUser cfg now flds upload s))).
         r \<in> set (Users s) \<or> u_password r = bcrypt_hash cfg p 10"
    by (simp add: ends_in_def)
next
  assume "password flds = Some p \<and> p \<noteq> []"
  then have pw: "password flds = Some p" "p \<noteq> []"
    by simp_all
  have "ends_in (\<lambda>t. \<forall>r\<in>set (Users t).
          r \<in> set (Users s) \<or> u_password r = bcrypt_hash cfg p 10)
          (updateUser cfg now ID flds upload s)"
    unfolding updateUser_def updateUser_try_def
    by (intro vcg; (simp add: ends_in_def pw truthy_def)?;
        (auto dest: final_User_update_rows)?)
  then show "\<forall>r\<in>set (Users (final (updateUser cfg now ID flds upload s))).
         r \<in> set (Users s) \<or> u_password r = bcrypt_hash cfg p 10"
    by (simp add: ends_in_def)
qed

text \<open>
  C8. The claim is that a user row created or updated with a password in the request
  holds the bcrypt hash of it, never the plaintext. \<^verbatim>\<open>updateUser\<close> tests \<^verbatim>\<open>if (password)\<close>.
  A form whose \<^verbatim>\<open>password\<close> field is present and empty is falsy there and takes the
  \<^verbatim>\<open>else\<close> branch, whose \<^verbatim>\<open>{ ...fields, image: img }\<close> still carries the field: on the
  sample data the request is answered \<^verbatim>\<open>200\<close> and the stored hash of user 1 is replaced
  by the empty string of the form. A form without the field leaves the hash alone.
\<close>

theorem updateUser_empty_password_is_stored:
  "u_password ann = bcrypt_hash sample_cfg ''Str0ngP@ss'' 10 \<and>
   status_of (final (updateUser sample_cfg ''17'' 1
      \<lparr>name = ''Ann'', email = ''ann@x.com'', password = Some []\<rparr> None portfolio)) =
     Some 200 \<and>
   Users (final (updateUser sample_cfg ''17'' 1
      \<lparr>name = ''Ann'', email = ''ann@x.com'', password = Some []\<rparr> None portfolio)) =
     [ann\<lparr>u_password := []\<rparr>] \<and>
   Users (final (updateUser sample_cfg ''17'' 1
      \<lparr>name = ''Ann'', email = ''ann@x.com'', password = None\<rparr> None portfolio)) = [ann]"
  by (simp add: handler_defs sample_defs)

section \<open>Routing\<close>

text \<open>
  C9. The three mutating image endpoints (\<^verbatim>\<open>POST /\<close>, \<^verbatim>\<open>PUT /:id\<close>, \<^verbatim>\<open>DELETE /:id\<close> of
  \<^verbatim>\<open>ImageRoute\<close>) reach their handler only when \<^verbatim>\<open>checkAuth\<close> accepted the request's
  \<^verbatim>\<open>Authorization\<close> header, and are stopped by it otherwise; \<^verbatim>\<open>GET /\<close> of \<^verbatim>\<open>ImageRoute\<close>
  and the four endpoints of \<^verbatim>\<open>AuthRoute\<close> reach their handler whatever \<^verbatim>\<open>checkAuth\<close>
  would say, and no request to \<^verbatim>\<open>AuthRoute\<close> is ever stopped by a middleware.
\<close>

theorem image_mutations_behind_checkAuth:
  "(serve accepts ImageRoute q = Invoked h \<and> h \<noteq> ImageCtrl_listImages
      \<longrightarrow> accepts (q_authorization q)) \<and>
   serve accepts ImageRoute \<lparr>q_method = POST, q_path = [], q_authorization = a\<rparr> =
     (if accepts a then Invoked ImageCtrl_createImage else Stopped checkAuth) \<and>
   (x \<noteq> [] \<longrightarrow>
      serve accepts ImageRoute \<lparr>q_method = PUT, q_path = [x], q_authorization = a\<rparr> =
        (if accepts a then Invoked ImageCtrl_updateImage else Stopped checkAuth) \<and>
      serve accepts ImageRoute \<lparr>q_method = DELETE, q_path = [x], q_authorization = a\<rparr> =
        (if accepts a then Invoked ImageCtrl_deleteImage else Stopped checkAuth) \<and>
      serve accepts AuthRoute \<lparr>q_method = GET, q_path = [x], q_authorization = a\<rparr> =
        Invoked AuthCtrl_readAvatar) \<and>
   serve accepts ImageRoute \<lparr>q_method = GET, q_path = [], q_authorization = a\<rparr> =
     Invoked ImageCtrl_listImages \<and>
   serve accepts AuthRoute \<lparr>q_method = POST, q_path = [], q_authorization = a\<rparr> =
     Invoked AuthCtrl_loginUser \<and>
   serve accepts AuthRoute \<lparr>q_method = POST, q_path = [''password''], q_authorization = a\<rparr> =
     Invoked AuthCtrl_forgotPassword \<and>
   serve accepts AuthRoute \<lparr>q_method = POST, q_path = [''recaptcha''], q_authorization = a\<rparr> =
     Invoked AuthCtrl_checkRecaptcha \<and>
   serve accepts AuthRoute q \<noteq> Stopped m"
proof -
  have only: "serve accepts ImageRoute q = Invoked h \<and> h \<noteq> ImageCtrl_listImages
      \<longrightarrow> accepts (q_authorization q)"
    by (auto simp: serve_def ImageRoute_def route_matches_def split: if_splits)
  have open_auth: "serve accepts AuthRoute q \<noteq> Stopped m"
    by (auto simp: serve_def AuthRoute_def route_matches_def split: if_splits)
  have each: "?thesis = ((serve accepts ImageRoute q = Invoked h \<and> h \<noteq> ImageCtrl_listImages
      \<longrightarrow> accepts (q_authorization q)) \<and> serve accepts AuthRoute q \<noteq> Stopped m)"
    by (simp add: serve_def ImageRoute_def AuthRoute_def route_matches_def)
  show ?thesis
    unfolding each using only open_auth by blast
qed

theorem image_mutations_behind_checkAuth_witness:
  "serve (\<lambda>a. a = Some ''Bearer t'') ImageRoute
     \<lparr>q_method = PUT, q_path = [''7''], q_authorization = None\<rparr> = Stopped checkAuth \<and>
   serve (\<lambda>a. a = Some ''Bearer t'') ImageRoute
     \<lparr>q_method = DELETE, q_path = [''7''], q_authorization = Some ''Bearer t''\<rparr> =
     Invoked ImageCtrl_deleteImage \<and>
   serve (\<lambda>a. a = Some ''Bearer t'') AuthRoute
     \<lparr>q_method = GET, q_path = [''7''], q_authorization = None\<rparr> =
     Invoked AuthCtrl_readAvatar \<and>
   serve (\<lambda>a. a = Some ''Bearer t'') ImageRoute
     \<lparr>q_method = GET, q_path = [], q_authorization = None\<rparr> = Invoked ImageCtrl_listImages"
  using image_mutations_behind_checkAuth
    [where accepts = "\<lambda>a. a = Some ''Bearer t''" and a = None and x = "''7''"]
    image_mutations_behind_checkAuth
    [where accepts = "\<lambda>a. a = Some ''Bearer t''" and a = "Some ''Bearer t''" and x = "''7''"]
  by simp

section \<open>Deleting a user\<close>

text \<open>
  C10. \<^verbatim>\<open>deleteUser\<close> changes nothing but the \<^verbatim>\<open>Users\<close> table: after every call the
  files on disk (the user's stored image among them) and the \<^verbatim>\<open>Images\<close> table are what
  they were, and when the database answers and a row has the id, that row is
  destroyed and the answer is \<^verbatim>\<open>204\<close>.
\<close>

theorem deleteUser_touches_no_file:
  "disk (final (deleteUser cfg ID s)) = disk s \<and>
   Images (final (deleteUser cfg ID s)) = Images s \<and>
   (db_up s \<and> sent s = None \<and> ID \<in> set (map u_id (Users s)) \<longrightarrow>
      Users (final (deleteUser cfg ID s)) = filter (\<lambda>r. u_id r \<noteq> ID) (Users s) \<and>
      status_of (final (deleteUser cfg ID s)) = Some 204)"
  by (auto simp: deleteUser_def deleteUser_try_def User_findByPk_def User_destroy_def
      json_res_def status_of_def find_None_iff split: option.splits)

theorem deleteUser_touches_no_file_witness:
  "u_image ann = ''Ann-1.webp'' \<and>
   ''img/users/Ann-1.webp'' \<in> disk (final (deleteUser sample_cfg 1 portfolio)) \<and>
   Users (final (deleteUser sample_cfg 1 portfolio)) = [] \<and>
   status_of (final (deleteUser sample_cfg 1 portfolio)) = Some 204"
  using deleteUser_touches_no_file [of sample_cfg 1 portfolio]
  by (simp add: sample_defs)

end
